theory Spec2Isabelle
  imports Main "HOL-Library.Word"
begin

section \<open>Download finalisation on Windows: content/browser/download/base_file_win.cc\<close>

text \<open>
  The file holds two classifiers of raw result codes and the two member functions of
  \<open>BaseFile\<close> that use them:
  \<^item> \<open>MapShFileOperationCodes\<close>: a result code of \<open>SHFileOperation\<close> to a
    \<open>DownloadInterruptReason\<close>;
  \<^item> \<open>MapScanAndSaveErrorCodeToInterruptReason\<close>: an \<open>HRESULT\<close> of
    \<open>ScanAndSaveDownloadedFile\<close> to a \<open>DownloadInterruptReason\<close>;
  \<^item> \<open>BaseFile::MoveFileAndAdjustPermissions\<close> and
    \<open>BaseFile::AnnotateWithSourceInformation\<close>.

  Both \<open>int\<close> and \<open>HRESULT\<close> are 32-bit two's complement integers on Windows, so both
  are 32-bit words here, read as signed with \<open>sint\<close>.
\<close>

subsection \<open>Data\<close>

type_synonym int32 = "32 word"
type_synonym HRESULT = "32 word"

text \<open>
  Modelled from the spec: the declaration of the enumeration
  (download_interrupt_reasons.h) is not among the sources. The first eight constructors
  are the members base_file_win.cc names; \<open>DOWNLOAD_INTERRUPT_REASON_OTHER\<close> stands for
  the pass-through categories of the spec (disk full, path not found, ...), which this
  file never names and only forwards from the generic translator, with the member's
  number as its argument.
\<close>

datatype DownloadInterruptReason =
    DOWNLOAD_INTERRUPT_REASON_NONE
  | DOWNLOAD_INTERRUPT_REASON_FILE_FAILED
  | DOWNLOAD_INTERRUPT_REASON_FILE_ACCESS_DENIED
  | DOWNLOAD_INTERRUPT_REASON_FILE_NAME_TOO_LONG
  | DOWNLOAD_INTERRUPT_REASON_FILE_TOO_LARGE
  | DOWNLOAD_INTERRUPT_REASON_FILE_BLOCKED
  | DOWNLOAD_INTERRUPT_REASON_FILE_VIRUS_INFECTED
  | DOWNLOAD_INTERRUPT_REASON_FILE_SECURITY_CHECK_FAILED
  | DOWNLOAD_INTERRUPT_REASON_OTHER int

text \<open>The origin tag handed to the generic translator; this file uses one member only.\<close>

datatype DownloadInterruptSource = DOWNLOAD_INTERRUPT_FROM_DISK

text \<open>The counters of download_stats.h; this file records one member only.\<close>

datatype DownloadCountTypes = FILE_MISSING_AFTER_SUCCESSFUL_SCAN_COUNT

text \<open>The events \<open>bound_net_log_\<close> receives from this file.\<close>

datatype NetLogEntry =
    BeginEvent_TYPE_DOWNLOAD_FILE_ANNOTATED
  | EndEvent_TYPE_DOWNLOAD_FILE_ANNOTATED

text \<open>
  Everything the two member functions write: the net log of the \<open>BaseFile\<close>, the
  entries handed to \<open>LogInterruptReason\<close> (operation name, raw code, derived reason) and
  the counters handed to \<open>RecordDownloadCount\<close>, each in the order of the calls.
\<close>

record BaseFile =
  bound_net_log :: "NetLogEntry list"
  interrupt_log :: "(string \<times> int32 \<times> DownloadInterruptReason) list"
  download_counts :: "DownloadCountTypes list"

subsection \<open>Windows macros and constants\<close>

text \<open>
  \<open>SUCCEEDED(hr)\<close> is \<open>((HRESULT)(hr) >= 0)\<close> and \<open>FAILED(hr)\<close> is
  \<open>((HRESULT)(hr) < 0)\<close> in winerror.h. The two status constants carry their values
  as comments in the source.
\<close>

definition SUCCEEDED :: "HRESULT \<Rightarrow> bool" where
  "SUCCEEDED hr = (0 \<le> sint hr)"

definition FAILED :: "HRESULT \<Rightarrow> bool" where
  "FAILED hr = (sint hr < 0)"

definition INET_E_SECURITY_PROBLEM :: HRESULT where
  "INET_E_SECURITY_PROBLEM = 0x800c000e"

definition E_FAIL :: HRESULT where
  "E_FAIL = 0x80004005"

definition S_OK :: HRESULT where
  "S_OK = 0"

subsection \<open>Collaborators that are not in this file\<close>

text \<open>
  Modelled from the spec: \<open>BaseFile::LogInterruptReason\<close> (base_file.cc) is not among
  the sources. The spec's diagnostic logger accepts the operation name, the raw code and
  the derived reason, records them, and never affects the returned reason.
\<close>

definition LogInterruptReason ::
  "string \<Rightarrow> int32 \<Rightarrow> DownloadInterruptReason \<Rightarrow> BaseFile \<Rightarrow> DownloadInterruptReason \<times> BaseFile" where
  "LogInterruptReason operation os_error reason s =
     (reason, s\<lparr>interrupt_log := interrupt_log s @ [(operation, os_error, reason)]\<rparr>)"

text \<open>
  Modelled from the spec: \<open>RecordDownloadCount\<close> (download_stats.cc) is not among the
  sources. It records one occurrence of the counter it is given.
\<close>

definition RecordDownloadCount :: "DownloadCountTypes \<Rightarrow> BaseFile \<Rightarrow> BaseFile" where
  "RecordDownloadCount c s = s\<lparr>download_counts := download_counts s @ [c]\<rparr>"

definition BeginEvent :: "BaseFile \<Rightarrow> BaseFile" where
  "BeginEvent s = s\<lparr>bound_net_log := bound_net_log s @ [BeginEvent_TYPE_DOWNLOAD_FILE_ANNOTATED]\<rparr>"

definition EndEvent :: "BaseFile \<Rightarrow> BaseFile" where
  "EndEvent s = s\<lparr>bound_net_log := bound_net_log s @ [EndEvent_TYPE_DOWNLOAD_FILE_ANNOTATED]\<rparr>"

subsection \<open>The inspection classifier\<close>

text \<open>
  The early return on \<open>SUCCEEDED\<close>, then the \<open>switch\<close> with its two labels and its
  \<open>default\<close>.
\<close>

definition MapScanAndSaveErrorCodeToInterruptReason :: "HRESULT \<Rightarrow> DownloadInterruptReason" where
  "MapScanAndSaveErrorCodeToInterruptReason result =
     (if SUCCEEDED result then DOWNLOAD_INTERRUPT_REASON_NONE
      else if result = INET_E_SECURITY_PROBLEM then DOWNLOAD_INTERRUPT_REASON_FILE_BLOCKED
      else if result = E_FAIL then DOWNLOAD_INTERRUPT_REASON_FILE_VIRUS_INFECTED
      else DOWNLOAD_INTERRUPT_REASON_FILE_SECURITY_CHECK_FAILED)"

subsection \<open>The annotate step\<close>

text \<open>
  \<open>BaseFile::AnnotateWithSourceInformation\<close>. The calls
  \<open>ScanAndSaveDownloadedFile(full_path_, source_url_)\<close> and
  \<open>file_util::PathExists(full_path_)\<close> leave the program; what they return, the status
  \<open>hr\<close> and the answer \<open>path_exists\<close> of the existence check made after the scan, are
  the inputs of the model. The three \<open>DCHECK\<close>s are debug assertions: a release build
  compiles them to nothing, and that build is the one modelled. (In a build with
  \<open>DCHECK\<close>s on, \<open>DCHECK(FAILED(hr))\<close> stops the process when the file is missing
  after a successful scan; the code after it handles that very case.)
\<close>

definition AnnotateWithSourceInformation ::
  "HRESULT \<Rightarrow> bool \<Rightarrow> BaseFile \<Rightarrow> DownloadInterruptReason \<times> BaseFile" where
  "AnnotateWithSourceInformation hr path_exists s0 =
     (let s1 = BeginEvent s0;
          result = DOWNLOAD_INTERRUPT_REASON_NONE;
          (result, s2) =
            (if \<not> path_exists then
               (let result = MapScanAndSaveErrorCodeToInterruptReason hr;
                    (result, s) =
                      (if result = DOWNLOAD_INTERRUPT_REASON_NONE
                       then (DOWNLOAD_INTERRUPT_REASON_FILE_SECURITY_CHECK_FAILED,
                             RecordDownloadCount FILE_MISSING_AFTER_SUCCESSFUL_SCAN_COUNT s1)
                       else (result, s1));
                    (_, s) = LogInterruptReason ''ScanAndSaveDownloadedFile'' hr result s
                in (result, s))
             else (result, s1))
      in (result, EndEvent s2))"

subsection \<open>The relocation classifier\<close>

text \<open>
  \<open>net::MapSystemError\<close> and \<open>ConvertNetErrorToInterruptReason\<close> are not in this
  file; the classifier takes them as parameters (a \<open>net::Error\<close> is an integer). The
  \<open>switch\<close> is the chain of its labels in the order of the source; a code that matches
  none of them falls through to the generic translator.
\<close>

definition MapShFileOperationCodes ::
  "(int \<Rightarrow> DownloadInterruptSource \<Rightarrow> DownloadInterruptReason) \<Rightarrow> (int32 \<Rightarrow> int) \<Rightarrow>
   int32 \<Rightarrow> DownloadInterruptReason" where
  "MapShFileOperationCodes ConvertNetErrorToInterruptReason MapSystemError code =
     (if code = 0x71 then DOWNLOAD_INTERRUPT_REASON_FILE_FAILED
      else if code = 0x75 then DOWNLOAD_INTERRUPT_REASON_FILE_FAILED
      else if code = 0x78 then DOWNLOAD_INTERRUPT_REASON_FILE_ACCESS_DENIED
      else if code = 0x79 then DOWNLOAD_INTERRUPT_REASON_FILE_NAME_TOO_LONG
      else if code = 0x7C then DOWNLOAD_INTERRUPT_REASON_FILE_FAILED
      else if code = 0x7E then DOWNLOAD_INTERRUPT_REASON_FILE_FAILED
      else if code = 0x80 then DOWNLOAD_INTERRUPT_REASON_FILE_FAILED
      else if code = 0x81 then DOWNLOAD_INTERRUPT_REASON_FILE_NAME_TOO_LONG
      else if code = 0x82 then DOWNLOAD_INTERRUPT_REASON_FILE_ACCESS_DENIED
      else if code = 0x83 then DOWNLOAD_INTERRUPT_REASON_FILE_ACCESS_DENIED
      else if code = 0x84 then DOWNLOAD_INTERRUPT_REASON_FILE_ACCESS_DENIED
      else if code = 0x85 then DOWNLOAD_INTERRUPT_REASON_FILE_TOO_LARGE
      else if code = 0x86 then DOWNLOAD_INTERRUPT_REASON_FILE_ACCESS_DENIED
      else if code = 0x87 then DOWNLOAD_INTERRUPT_REASON_FILE_ACCESS_DENIED
      else if code = 0x88 then DOWNLOAD_INTERRUPT_REASON_FILE_ACCESS_DENIED
      else if code = 0xB7 then DOWNLOAD_INTERRUPT_REASON_FILE_NAME_TOO_LONG
      else if code = 0x10000 then DOWNLOAD_INTERRUPT_REASON_FILE_FAILED
      else if code = 0x72 then DOWNLOAD_INTERRUPT_REASON_FILE_FAILED
      else if code = 0x73 then DOWNLOAD_INTERRUPT_REASON_FILE_FAILED
      else if code = 0x74 then DOWNLOAD_INTERRUPT_REASON_FILE_FAILED
      else if code = 0x76 then DOWNLOAD_INTERRUPT_REASON_FILE_FAILED
      else if code = 0x7A then DOWNLOAD_INTERRUPT_REASON_FILE_FAILED
      else if code = 0x7D then DOWNLOAD_INTERRUPT_REASON_FILE_FAILED
      else if code = 0x402 then DOWNLOAD_INTERRUPT_REASON_FILE_FAILED
      else if code = 0x10074 then DOWNLOAD_INTERRUPT_REASON_FILE_FAILED
      else ConvertNetErrorToInterruptReason (MapSystemError code) DOWNLOAD_INTERRUPT_FROM_DISK)"

text \<open>
  The legacy table on its own: the labels of the \<open>switch\<close> with the reason each one
  returns, in the order of the source (DE_SAMEFILE first, DE_ROOTDIR | ERRORONDEST last).
\<close>

definition ShFileOperationCodes :: "(int32 \<times> DownloadInterruptReason) list" where
  "ShFileOperationCodes =
     [(0x71, DOWNLOAD_INTERRUPT_REASON_FILE_FAILED),
      (0x75, DOWNLOAD_INTERRUPT_REASON_FILE_FAILED),
      (0x78, DOWNLOAD_INTERRUPT_REASON_FILE_ACCESS_DENIED),
      (0x79, DOWNLOAD_INTERRUPT_REASON_FILE_NAME_TOO_LONG),
      (0x7C, DOWNLOAD_INTERRUPT_REASON_FILE_FAILED),
      (0x7E, DOWNLOAD_INTERRUPT_REASON_FILE_FAILED),
      (0x80, DOWNLOAD_INTERRUPT_REASON_FILE_FAILED),
      (0x81, DOWNLOAD_INTERRUPT_REASON_FILE_NAME_TOO_LONG),
      (0x82, DOWNLOAD_INTERRUPT_REASON_FILE_ACCESS_DENIED),
      (0x83, DOWNLOAD_INTERRUPT_REASON_FILE_ACCESS_DENIED),
      (0x84, DOWNLOAD_INTERRUPT_REASON_FILE_ACCESS_DENIED),
      (0x85, DOWNLOAD_INTERRUPT_REASON_FILE_TOO_LARGE),
      (0x86, DOWNLOAD_INTERRUPT_REASON_FILE_ACCESS_DENIED),
      (0x87, DOWNLOAD_INTERRUPT_REASON_FILE_ACCESS_DENIED),
      (0x88, DOWNLOAD_INTERRUPT_REASON_FILE_ACCESS_DENIED),
      (0xB7, DOWNLOAD_INTERRUPT_REASON_FILE_NAME_TOO_LONG),
      (0x10000, DOWNLOAD_INTERRUPT_REASON_FILE_FAILED),
      (0x72, DOWNLOAD_INTERRUPT_REASON_FILE_FAILED),
      (0x73, DOWNLOAD_INTERRUPT_REASON_FILE_FAILED),
      (0x74, DOWNLOAD_INTERRUPT_REASON_FILE_FAILED),
      (0x76, DOWNLOAD_INTERRUPT_REASON_FILE_FAILED),
      (0x7A, DOWNLOAD_INTERRUPT_REASON_FILE_FAILED),
      (0x7D, DOWNLOAD_INTERRUPT_REASON_FILE_FAILED),
      (0x402, DOWNLOAD_INTERRUPT_REASON_FILE_FAILED),
      (0x10074, DOWNLOAD_INTERRUPT_REASON_FILE_FAILED)]"

subsection \<open>The relocate step\<close>

text \<open>
  \<open>BaseFile::MoveFileAndAdjustPermissions\<close>. \<open>SHFileOperation(&move_info)\<close> leaves the
  program; its return value \<open>result\<close> and the field \<open>move_info.fAnyOperationsAborted\<close>
  it sets are the inputs of the model. \<open>AssertIOAllowed\<close> is a debug assertion on the
  calling thread and is compiled to nothing in a release build.
\<close>

definition MoveFileAndAdjustPermissions ::
  "(int \<Rightarrow> DownloadInterruptSource \<Rightarrow> DownloadInterruptReason) \<Rightarrow> (int32 \<Rightarrow> int) \<Rightarrow>
   int32 \<Rightarrow> bool \<Rightarrow> BaseFile \<Rightarrow> DownloadInterruptReason \<times> BaseFile" where
  "MoveFileAndAdjustPermissions ConvertNetErrorToInterruptReason MapSystemError
       result fAnyOperationsAborted s =
     (let interrupt_reason = DOWNLOAD_INTERRUPT_REASON_NONE;
          interrupt_reason =
            (if result = 0 \<and> fAnyOperationsAborted then DOWNLOAD_INTERRUPT_REASON_FILE_FAILED
             else if result \<noteq> 0
               then MapShFileOperationCodes ConvertNetErrorToInterruptReason MapSystemError result
             else interrupt_reason)
      in if interrupt_reason \<noteq> DOWNLOAD_INTERRUPT_REASON_NONE
         then LogInterruptReason ''SHFileOperation'' result interrupt_reason s
         else (interrupt_reason, s))"

subsection \<open>One finalize attempt\<close>


text \<open>A \<open>BaseFile\<close> that has written nothing yet, for the concrete runs below.\<close>

definition fresh :: BaseFile where
  "fresh = \<lparr>bound_net_log = [], interrupt_log = [], download_counts = []\<rparr>"

section \<open>Properties\<close>

subsection \<open>Status codes\<close>

lemma SUCCEEDED_iff_not_FAILED: "SUCCEEDED hr \<longleftrightarrow> \<not> FAILED hr"
  by (simp add: SUCCEEDED_def FAILED_def not_less)

lemma FAILED_E_FAIL: "FAILED E_FAIL"
  by (simp add: FAILED_def E_FAIL_def)

lemma FAILED_INET_E_SECURITY_PROBLEM: "FAILED INET_E_SECURITY_PROBLEM"
  by (simp add: FAILED_def INET_E_SECURITY_PROBLEM_def)

text \<open>\<open>E_ACCESSDENIED\<close>, a failure status that the inspection classifier does not list.\<close>

lemma FAILED_E_ACCESSDENIED: "FAILED 0x80070005"
  by (simp add: FAILED_def)

lemma SUCCEEDED_S_OK: "SUCCEEDED S_OK"
  by (simp add: SUCCEEDED_def S_OK_def)

text \<open>\<open>S_FALSE\<close>, a success status other than \<open>S_OK\<close>.\<close>

lemma SUCCEEDED_S_FALSE: "SUCCEEDED 1"
  by (simp add: SUCCEEDED_def)

lemma MapScanAndSave_FAILED:
  assumes "FAILED hr"
  shows "MapScanAndSaveErrorCodeToInterruptReason hr =
     (if hr = INET_E_SECURITY_PROBLEM then DOWNLOAD_INTERRUPT_REASON_FILE_BLOCKED
      else if hr = E_FAIL then DOWNLOAD_INTERRUPT_REASON_FILE_VIRUS_INFECTED
      else DOWNLOAD_INTERRUPT_REASON_FILE_SECURITY_CHECK_FAILED)"
  using assms
  by (simp add: MapScanAndSaveErrorCodeToInterruptReason_def SUCCEEDED_iff_not_FAILED)

subsection \<open>What one call of the annotate step returns and writes\<close>

lemma annotate_reason:
  "fst (AnnotateWithSourceInformation hr path_exists s) =
     (if path_exists then DOWNLOAD_INTERRUPT_REASON_NONE
      else if SUCCEEDED hr then DOWNLOAD_INTERRUPT_REASON_FILE_SECURITY_CHECK_FAILED
      else MapScanAndSaveErrorCodeToInterruptReason hr)"
  by (simp add: AnnotateWithSourceInformation_def MapScanAndSaveErrorCodeToInterruptReason_def
      LogInterruptReason_def Let_def)

lemma annotate_download_counts:
  "download_counts (snd (AnnotateWithSourceInformation hr path_exists s)) =
     download_counts s @
       (if \<not> path_exists \<and> SUCCEEDED hr then [FILE_MISSING_AFTER_SUCCESSFUL_SCAN_COUNT] else [])"
  by (simp add: AnnotateWithSourceInformation_def MapScanAndSaveErrorCodeToInterruptReason_def
      LogInterruptReason_def RecordDownloadCount_def BeginEvent_def EndEvent_def Let_def)

lemma annotate_interrupt_log:
  "interrupt_log (snd (AnnotateWithSourceInformation hr path_exists s)) =
     interrupt_log s @
       (if path_exists then []
        else [(''ScanAndSaveDownloadedFile'', hr,
               fst (AnnotateWithSourceInformation hr path_exists s))])"
  by (simp add: AnnotateWithSourceInformation_def MapScanAndSaveErrorCodeToInterruptReason_def
      LogInterruptReason_def RecordDownloadCount_def BeginEvent_def EndEvent_def Let_def)

lemma annotate_net_log:
  "bound_net_log (snd (AnnotateWithSourceInformation hr path_exists s)) =
     bound_net_log s @
       [BeginEvent_TYPE_DOWNLOAD_FILE_ANNOTATED, EndEvent_TYPE_DOWNLOAD_FILE_ANNOTATED]"
  by (simp add: AnnotateWithSourceInformation_def MapScanAndSaveErrorCodeToInterruptReason_def
      LogInterruptReason_def RecordDownloadCount_def BeginEvent_def EndEvent_def Let_def)

subsection \<open>The switch and its table\<close>

lemma ShFileOperationCodes_distinct: "distinct (map fst ShFileOperationCodes)"
  by (simp add: ShFileOperationCodes_def)

lemma MapShFileOperationCodes_lookup:
  "MapShFileOperationCodes conv mse code =
     (case map_of ShFileOperationCodes code of
        Some r \<Rightarrow> r
      | None \<Rightarrow> conv (mse code) DOWNLOAD_INTERRUPT_FROM_DISK)"
  by (simp add: MapShFileOperationCodes_def ShFileOperationCodes_def)







section \<open>The claims\<close>

subsection \<open>The annotate step\<close>

text \<open>
  C1, as amended. The claim says that a success status gives
  \<open>DOWNLOAD_INTERRUPT_REASON_NONE\<close> whether or not the destination file still exists.
  The code checks the file first: when it is missing, a \<open>NONE\<close> from the status mapping is
  replaced by \<open>FILE_SECURITY_CHECK_FAILED\<close>. What holds: for every success status the
  status mapping \<open>MapScanAndSaveErrorCodeToInterruptReason\<close> returns \<open>NONE\<close>, and the
  annotate step returns \<open>NONE\<close> when the destination file still exists after the call.
\<close>

theorem success_is_none_while_file_exists:
  assumes "SUCCEEDED hr"
  shows "MapScanAndSaveErrorCodeToInterruptReason hr = DOWNLOAD_INTERRUPT_REASON_NONE \<and>
         fst (AnnotateWithSourceInformation hr True s) = DOWNLOAD_INTERRUPT_REASON_NONE"
proof
  from assms show "MapScanAndSaveErrorCodeToInterruptReason hr = DOWNLOAD_INTERRUPT_REASON_NONE"
    by (simp add: MapScanAndSaveErrorCodeToInterruptReason_def)
next
  show "fst (AnnotateWithSourceInformation hr True s) = DOWNLOAD_INTERRUPT_REASON_NONE"
    by (simp add: annotate_reason)
qed

theorem success_is_none_while_file_exists_witness:
  "SUCCEEDED 1 \<and>
   MapScanAndSaveErrorCodeToInterruptReason 1 = DOWNLOAD_INTERRUPT_REASON_NONE \<and>
   fst (AnnotateWithSourceInformation 1 True fresh) = DOWNLOAD_INTERRUPT_REASON_NONE"
  using success_is_none_while_file_exists [OF SUCCEEDED_S_FALSE, of fresh] SUCCEEDED_S_FALSE
  by simp

text \<open>
  The run that refutes C1 as stated: the scan returns \<open>S_OK\<close>, the file is gone
  afterwards, and the annotate step returns \<open>FILE_SECURITY_CHECK_FAILED\<close>.
\<close>

theorem success_with_missing_file_is_not_none:
  "SUCCEEDED S_OK \<and>
   fst (AnnotateWithSourceInformation S_OK False fresh) =
     DOWNLOAD_INTERRUPT_REASON_FILE_SECURITY_CHECK_FAILED \<and>
   fst (AnnotateWithSourceInformation S_OK False fresh) \<noteq> DOWNLOAD_INTERRUPT_REASON_NONE"
  by (simp add: annotate_reason SUCCEEDED_S_OK)

text \<open>
  C2. For every status and every state: when the status is a failure and the destination
  file does not exist after the call, the reason the annotate step returns is not
  \<open>NONE\<close>; it is \<open>FILE_BLOCKED\<close>, \<open>FILE_VIRUS_INFECTED\<close> or
  \<open>FILE_SECURITY_CHECK_FAILED\<close>.
\<close>

theorem failed_scan_missing_file_never_none:
  assumes "FAILED hr"
  shows "fst (AnnotateWithSourceInformation hr False s) \<noteq> DOWNLOAD_INTERRUPT_REASON_NONE \<and>
         fst (AnnotateWithSourceInformation hr False s) \<in>
           {DOWNLOAD_INTERRUPT_REASON_FILE_BLOCKED,
            DOWNLOAD_INTERRUPT_REASON_FILE_VIRUS_INFECTED,
            DOWNLOAD_INTERRUPT_REASON_FILE_SECURITY_CHECK_FAILED}"
proof -
  from assms have "\<not> SUCCEEDED hr"
    by (simp add: SUCCEEDED_iff_not_FAILED)
  then have "fst (AnnotateWithSourceInformation hr False s) =
      MapScanAndSaveErrorCodeToInterruptReason hr"
    by (simp add: annotate_reason)
  with assms show ?thesis
    by (simp add: MapScanAndSave_FAILED)
qed

theorem failed_scan_missing_file_never_none_witness:
  "FAILED E_FAIL \<and>
   fst (AnnotateWithSourceInformation E_FAIL False fresh) \<noteq> DOWNLOAD_INTERRUPT_REASON_NONE \<and>
   fst (AnnotateWithSourceInformation E_FAIL False fresh) \<in>
     {DOWNLOAD_INTERRUPT_REASON_FILE_BLOCKED,
      DOWNLOAD_INTERRUPT_REASON_FILE_VIRUS_INFECTED,
      DOWNLOAD_INTERRUPT_REASON_FILE_SECURITY_CHECK_FAILED}"
  using failed_scan_missing_file_never_none [OF FAILED_E_FAIL, of fresh] FAILED_E_FAIL
  by simp

text \<open>
  C3. For every status: when the status is a failure and the destination file still
  exists after the call, the annotate step returns \<open>NONE\<close>.
\<close>

theorem failed_scan_file_present_is_none:
  "FAILED hr \<Longrightarrow>
   fst (AnnotateWithSourceInformation hr True s) = DOWNLOAD_INTERRUPT_REASON_NONE"
  by (simp add: annotate_reason)

theorem failed_scan_file_present_is_none_witness:
  "FAILED 0x80070005 \<and>
   fst (AnnotateWithSourceInformation 0x80070005 True fresh) = DOWNLOAD_INTERRUPT_REASON_NONE"
  using failed_scan_file_present_is_none [OF FAILED_E_ACCESSDENIED, of fresh]
    FAILED_E_ACCESSDENIED
  by simp

text \<open>
  C7. When the status is a failure and the destination file is missing after the call,
  \<open>INET_E_SECURITY_PROBLEM\<close> gives \<open>FILE_BLOCKED\<close>, \<open>E_FAIL\<close> gives
  \<open>FILE_VIRUS_INFECTED\<close>, and every other failure status gives
  \<open>FILE_SECURITY_CHECK_FAILED\<close>.
\<close>

theorem failed_scan_missing_file_classification:
  assumes "FAILED hr"
  shows "fst (AnnotateWithSourceInformation hr False s) =
     (if hr = INET_E_SECURITY_PROBLEM then DOWNLOAD_INTERRUPT_REASON_FILE_BLOCKED
      else if hr = E_FAIL then DOWNLOAD_INTERRUPT_REASON_FILE_VIRUS_INFECTED
      else DOWNLOAD_INTERRUPT_REASON_FILE_SECURITY_CHECK_FAILED)"
proof -
  have "fst (AnnotateWithSourceInformation hr False s) =
      MapScanAndSaveErrorCodeToInterruptReason hr"
    using assms by (simp add: annotate_reason SUCCEEDED_iff_not_FAILED)
  also have "\<dots> =
     (if hr = INET_E_SECURITY_PROBLEM then DOWNLOAD_INTERRUPT_REASON_FILE_BLOCKED
      else if hr = E_FAIL then DOWNLOAD_INTERRUPT_REASON_FILE_VIRUS_INFECTED
      else DOWNLOAD_INTERRUPT_REASON_FILE_SECURITY_CHECK_FAILED)"
    using assms by (rule MapScanAndSave_FAILED)
  finally show ?thesis .
qed

theorem failed_scan_missing_file_classification_witness:
  "FAILED INET_E_SECURITY_PROBLEM \<and> FAILED E_FAIL \<and> FAILED 0x80070005 \<and>
   fst (AnnotateWithSourceInformation INET_E_SECURITY_PROBLEM False fresh) =
     DOWNLOAD_INTERRUPT_REASON_FILE_BLOCKED \<and>
   fst (AnnotateWithSourceInformation E_FAIL False fresh) =
     DOWNLOAD_INTERRUPT_REASON_FILE_VIRUS_INFECTED \<and>
   fst (AnnotateWithSourceInformation 0x80070005 False fresh) =
     DOWNLOAD_INTERRUPT_REASON_FILE_SECURITY_CHECK_FAILED"
  using failed_scan_missing_file_classification [OF FAILED_INET_E_SECURITY_PROBLEM, of fresh]
    failed_scan_missing_file_classification [OF FAILED_E_FAIL, of fresh]
    failed_scan_missing_file_classification [OF FAILED_E_ACCESSDENIED, of fresh]
    FAILED_INET_E_SECURITY_PROBLEM FAILED_E_FAIL FAILED_E_ACCESSDENIED
  by (simp add: INET_E_SECURITY_PROBLEM_def E_FAIL_def)

text \<open>
  C10. When the status is a success and the destination file is missing after the call,
  the annotate step records \<open>FILE_MISSING_AFTER_SUCCESSFUL_SCAN_COUNT\<close>, logs the
  interrupt reason and returns \<open>FILE_SECURITY_CHECK_FAILED\<close>, not \<open>NONE\<close>. The whole
  result is given: the reason and everything written.
\<close>

theorem success_with_missing_file_is_security_check_failed:
  assumes "SUCCEEDED hr"
  shows "AnnotateWithSourceInformation hr False s =
     (DOWNLOAD_INTERRUPT_REASON_FILE_SECURITY_CHECK_FAILED,
      s\<lparr>bound_net_log := bound_net_log s @
           [BeginEvent_TYPE_DOWNLOAD_FILE_ANNOTATED, EndEvent_TYPE_DOWNLOAD_FILE_ANNOTATED],
        interrupt_log := interrupt_log s @
           [(''ScanAndSaveDownloadedFile'', hr,
             DOWNLOAD_INTERRUPT_REASON_FILE_SECURITY_CHECK_FAILED)],
        download_counts := download_counts s @ [FILE_MISSING_AFTER_SUCCESSFUL_SCAN_COUNT]\<rparr>)"
  using assms
  by (simp add: AnnotateWithSourceInformation_def MapScanAndSaveErrorCodeToInterruptReason_def
      LogInterruptReason_def RecordDownloadCount_def BeginEvent_def EndEvent_def)

theorem success_with_missing_file_is_security_check_failed_witness:
  "SUCCEEDED S_OK \<and>
   AnnotateWithSourceInformation S_OK False fresh =
     (DOWNLOAD_INTERRUPT_REASON_FILE_SECURITY_CHECK_FAILED,
      \<lparr>bound_net_log =
         [BeginEvent_TYPE_DOWNLOAD_FILE_ANNOTATED, EndEvent_TYPE_DOWNLOAD_FILE_ANNOTATED],
       interrupt_log =
         [(''ScanAndSaveDownloadedFile'', S_OK,
           DOWNLOAD_INTERRUPT_REASON_FILE_SECURITY_CHECK_FAILED)],
       download_counts = [FILE_MISSING_AFTER_SUCCESSFUL_SCAN_COUNT]\<rparr>)"
  using success_with_missing_file_is_security_check_failed [OF SUCCEEDED_S_OK, of fresh]
    SUCCEEDED_S_OK
  by (simp add: fresh_def)

text \<open>
  C9, as amended. The claim says that on the lenient path (failure status, file still
  there, result \<open>NONE\<close>) a distinguishing counter is recorded. The code records its one
  counter, \<open>FILE_MISSING_AFTER_SUCCESSFUL_SCAN_COUNT\<close>, in the opposite situation. What
  holds: the counter is recorded exactly when the status is a success and the file is
  missing after the call, and a call that returns \<open>NONE\<close>, the lenient path included,
  records no counter and logs no interrupt reason.
\<close>

theorem counter_only_for_missing_file_after_success:
  "download_counts (snd (AnnotateWithSourceInformation hr path_exists s)) =
     download_counts s @
       (if SUCCEEDED hr \<and> \<not> path_exists then [FILE_MISSING_AFTER_SUCCESSFUL_SCAN_COUNT]
        else []) \<and>
   (fst (AnnotateWithSourceInformation hr path_exists s) = DOWNLOAD_INTERRUPT_REASON_NONE \<longrightarrow>
      download_counts (snd (AnnotateWithSourceInformation hr path_exists s)) = download_counts s \<and>
      interrupt_log (snd (AnnotateWithSourceInformation hr path_exists s)) = interrupt_log s)"
proof (intro conjI impI)
  show "download_counts (snd (AnnotateWithSourceInformation hr path_exists s)) =
     download_counts s @
       (if SUCCEEDED hr \<and> \<not> path_exists then [FILE_MISSING_AFTER_SUCCESSFUL_SCAN_COUNT]
        else [])"
    by (simp add: annotate_download_counts)
next
  assume "fst (AnnotateWithSourceInformation hr path_exists s) = DOWNLOAD_INTERRUPT_REASON_NONE"
  then have present: path_exists
    by (simp add: annotate_reason MapScanAndSaveErrorCodeToInterruptReason_def
        split: if_splits)
  from present
  show "download_counts (snd (AnnotateWithSourceInformation hr path_exists s)) = download_counts s"
    by (simp add: annotate_download_counts)
  from present
  show "interrupt_log (snd (AnnotateWithSourceInformation hr path_exists s)) = interrupt_log s"
    by (simp add: annotate_interrupt_log)
qed

theorem counter_only_for_missing_file_after_success_witness:
  "fst (AnnotateWithSourceInformation 0x80070005 True fresh) = DOWNLOAD_INTERRUPT_REASON_NONE \<and>
   download_counts (snd (AnnotateWithSourceInformation 0x80070005 True fresh)) =
     download_counts fresh \<and>
   interrupt_log (snd (AnnotateWithSourceInformation 0x80070005 True fresh)) =
     interrupt_log fresh \<and>
   download_counts (snd (AnnotateWithSourceInformation S_OK False fresh)) =
     [FILE_MISSING_AFTER_SUCCESSFUL_SCAN_COUNT]"
  using counter_only_for_missing_file_after_success [of "0x80070005" True fresh]
    counter_only_for_missing_file_after_success [of S_OK False fresh]
  by (simp add: annotate_reason SUCCEEDED_S_OK fresh_def)

text \<open>
  The run that refutes C9 as stated: the scan fails with \<open>INET_E_SECURITY_PROBLEM\<close>, the
  file is still there, the annotate step returns \<open>NONE\<close>, and neither a counter nor an
  interrupt reason is recorded: only the begin and end events of the net log are written.
\<close>

theorem lenient_path_records_no_counter:
  "FAILED INET_E_SECURITY_PROBLEM \<and>
   AnnotateWithSourceInformation INET_E_SECURITY_PROBLEM True fresh =
     (DOWNLOAD_INTERRUPT_REASON_NONE,
      \<lparr>bound_net_log =
         [BeginEvent_TYPE_DOWNLOAD_FILE_ANNOTATED, EndEvent_TYPE_DOWNLOAD_FILE_ANNOTATED],
       interrupt_log = [],
       download_counts = []\<rparr>)"
  by (simp add: FAILED_INET_E_SECURITY_PROBLEM AnnotateWithSourceInformation_def
      BeginEvent_def EndEvent_def fresh_def)

subsection \<open>The relocate step\<close>

text \<open>
  C4. When \<open>SHFileOperation\<close> returns 0 and sets \<open>fAnyOperationsAborted\<close>, the relocate
  step returns \<open>FILE_FAILED\<close> (so not \<open>NONE\<close>); a result code other than 0 goes to
  \<open>MapShFileOperationCodes\<close>, whose reason is returned; a result code 0 with the flag
  clear gives \<open>NONE\<close>.
\<close>

theorem move_result_interpretation:
  "(result = 0 \<and> fAnyOperationsAborted \<longrightarrow>
      fst (MoveFileAndAdjustPermissions conv mse result fAnyOperationsAborted s) =
        DOWNLOAD_INTERRUPT_REASON_FILE_FAILED) \<and>
   (result \<noteq> 0 \<longrightarrow>
      fst (MoveFileAndAdjustPermissions conv mse result fAnyOperationsAborted s) =
        MapShFileOperationCodes conv mse result) \<and>
   (result = 0 \<and> \<not> fAnyOperationsAborted \<longrightarrow>
      fst (MoveFileAndAdjustPermissions conv mse result fAnyOperationsAborted s) =
        DOWNLOAD_INTERRUPT_REASON_NONE)"
proof (cases "result = 0")
  case True
  then show ?thesis
    by (cases fAnyOperationsAborted)
      (simp_all add: MoveFileAndAdjustPermissions_def LogInterruptReason_def)
next
  case False
  then show ?thesis
    by (simp add: MoveFileAndAdjustPermissions_def LogInterruptReason_def Let_def)
qed

theorem move_result_interpretation_witness:
  "fst (MoveFileAndAdjustPermissions (\<lambda>_ _. DOWNLOAD_INTERRUPT_REASON_NONE) (\<lambda>_. 0) 0 True fresh) =
     DOWNLOAD_INTERRUPT_REASON_FILE_FAILED \<and>
   fst (MoveFileAndAdjustPermissions (\<lambda>_ _. DOWNLOAD_INTERRUPT_REASON_NONE) (\<lambda>_. 0) 0x79 False fresh) =
     DOWNLOAD_INTERRUPT_REASON_FILE_NAME_TOO_LONG \<and>
   fst (MoveFileAndAdjustPermissions (\<lambda>_ _. DOWNLOAD_INTERRUPT_REASON_NONE) (\<lambda>_. 0) 0 False fresh) =
     DOWNLOAD_INTERRUPT_REASON_NONE"
  using
    move_result_interpretation [of 0 True "\<lambda>_ _. DOWNLOAD_INTERRUPT_REASON_NONE" "\<lambda>_. 0" fresh]
    move_result_interpretation [of "0x79" False "\<lambda>_ _. DOWNLOAD_INTERRUPT_REASON_NONE" "\<lambda>_. 0" fresh]
    move_result_interpretation [of 0 False "\<lambda>_ _. DOWNLOAD_INTERRUPT_REASON_NONE" "\<lambda>_. 0" fresh]
  by (simp add: MapShFileOperationCodes_def)

text \<open>
  C5. A code of the legacy table gets the reason the table gives, whatever the generic
  translator would make of the same number: the reason is the same for any two
  translators \<open>conv\<close>, \<open>mse\<close> and \<open>conv'\<close>, \<open>mse'\<close>, so the translator has no part in
  it. Codes 0x71 and 0x79 give \<open>FILE_FAILED\<close> and \<open>FILE_NAME_TOO_LONG\<close>.
\<close>

theorem legacy_table_takes_precedence:
  assumes "(code, r) \<in> set ShFileOperationCodes"
  shows "MapShFileOperationCodes conv mse code = r \<and>
         MapShFileOperationCodes conv' mse' code = MapShFileOperationCodes conv mse code \<and>
         MapShFileOperationCodes conv mse 0x71 = DOWNLOAD_INTERRUPT_REASON_FILE_FAILED \<and>
         MapShFileOperationCodes conv mse 0x79 = DOWNLOAD_INTERRUPT_REASON_FILE_NAME_TOO_LONG"
proof (intro conjI)
  from assms have listed: "map_of ShFileOperationCodes code = Some r"
    using ShFileOperationCodes_distinct by simp
  then show "MapShFileOperationCodes conv mse code = r"
    by (simp add: MapShFileOperationCodes_lookup)
  from listed
  show "MapShFileOperationCodes conv' mse' code = MapShFileOperationCodes conv mse code"
    by (simp add: MapShFileOperationCodes_lookup)
next
  show "MapShFileOperationCodes conv mse 0x71 = DOWNLOAD_INTERRUPT_REASON_FILE_FAILED"
    by (simp add: MapShFileOperationCodes_def)
next
  show "MapShFileOperationCodes conv mse 0x79 = DOWNLOAD_INTERRUPT_REASON_FILE_NAME_TOO_LONG"
    by (simp add: MapShFileOperationCodes_def)
qed

text \<open>
  C5 at 0xB7 (\<open>DE_ERROR_MAX\<close>, the number of \<open>ERROR_ALREADY_EXISTS\<close> in Winerror.h),
  with a translator that would answer \<open>NONE\<close> for every code.
\<close>

theorem legacy_table_takes_precedence_witness:
  "(0xB7, DOWNLOAD_INTERRUPT_REASON_FILE_NAME_TOO_LONG) \<in> set ShFileOperationCodes \<and>
   MapShFileOperationCodes (\<lambda>_ _. DOWNLOAD_INTERRUPT_REASON_NONE) (\<lambda>_. 0) 0xB7 =
     DOWNLOAD_INTERRUPT_REASON_FILE_NAME_TOO_LONG"
proof -
  have listed: "(0xB7, DOWNLOAD_INTERRUPT_REASON_FILE_NAME_TOO_LONG) \<in> set ShFileOperationCodes"
    by (simp add: ShFileOperationCodes_def)
  from legacy_table_takes_precedence
    [OF listed, of "\<lambda>_ _. DOWNLOAD_INTERRUPT_REASON_NONE" "\<lambda>_. 0"] listed
  show ?thesis
    by simp
qed

text \<open>
  C6. \<open>MapShFileOperationCodes\<close> gives a reason for every 32-bit code: the table's
  reason when the code is one of the table's (whose labels are pairwise distinct, so
  there is one such reason), and the generic translator's reason otherwise. The
  translator is a parameter, a function as the spec describes it.
\<close>

theorem MapShFileOperationCodes_total:
  "distinct (map fst ShFileOperationCodes) \<and>
   MapShFileOperationCodes conv mse code =
     (case map_of ShFileOperationCodes code of
        Some r \<Rightarrow> r
      | None \<Rightarrow> conv (mse code) DOWNLOAD_INTERRUPT_FROM_DISK) \<and>
   MapShFileOperationCodes conv mse code \<in>
     {DOWNLOAD_INTERRUPT_REASON_FILE_FAILED, DOWNLOAD_INTERRUPT_REASON_FILE_ACCESS_DENIED,
      DOWNLOAD_INTERRUPT_REASON_FILE_NAME_TOO_LONG, DOWNLOAD_INTERRUPT_REASON_FILE_TOO_LARGE,
      conv (mse code) DOWNLOAD_INTERRUPT_FROM_DISK}"
proof (intro conjI)
  show "distinct (map fst ShFileOperationCodes)"
    by (rule ShFileOperationCodes_distinct)
next
  show "MapShFileOperationCodes conv mse code =
     (case map_of ShFileOperationCodes code of
        Some r \<Rightarrow> r
      | None \<Rightarrow> conv (mse code) DOWNLOAD_INTERRUPT_FROM_DISK)"
    by (rule MapShFileOperationCodes_lookup)
next
  show "MapShFileOperationCodes conv mse code \<in>
     {DOWNLOAD_INTERRUPT_REASON_FILE_FAILED, DOWNLOAD_INTERRUPT_REASON_FILE_ACCESS_DENIED,
      DOWNLOAD_INTERRUPT_REASON_FILE_NAME_TOO_LONG, DOWNLOAD_INTERRUPT_REASON_FILE_TOO_LARGE,
      conv (mse code) DOWNLOAD_INTERRUPT_FROM_DISK}"
    by (simp add: MapShFileOperationCodes_def)
qed

subsection \<open>Both steps\<close>




end
